theory Spec2Isabelle
  imports Complex_Main
begin

section \<open>Data model of the diagnose page\<close>

text \<open>
  The page \<open>app/diagnose/page.tsx\<close> keeps its state in nine \<open>useState\<close> cells; the
  child component \<open>ImageUpload\<close> adds the cell \<open>preview\<close>. The record \<open>ui\<close> holds
  these cells. A handler is modelled by the list of effects it performs, in source order:
  a setter call, a remote call that is awaited, an \<open>alert\<close>, a \<open>console.error\<close>, the start
  of a \<open>FileReader\<close>. The state after a handler is the fold of its setter calls over the
  state before.
\<close>

datatype AnalysisState = Idle | Predicting | Explaining | GeneratingVoice | Complete | Error

text \<open>A browser \<open>File\<close>: the fields \<open>name\<close>, \<open>type\<close> and \<open>size\<close> (a byte count).\<close>

record File =
  file_name :: string
  file_type :: string
  file_size :: nat

record ui =
  selectedCrop :: string
  selectedLanguage :: string
  selectedImage :: "File option"
  analysisState :: AnalysisState
  disease :: string
  confidence :: real
  explanation :: string
  audioBase64 :: string
  error :: string
  preview :: "string option"

text \<open>The initial values of the \<open>useState\<close> cells.\<close>

definition initial_ui :: ui where
  "initial_ui = \<lparr> selectedCrop = ''Tomato'', selectedLanguage = ''English'',
     selectedImage = None, analysisState = Idle, disease = '''', confidence = 0,
     explanation = '''', audioBase64 = '''', error = '''', preview = None \<rparr>"

text \<open>
  The three gateway functions of \<open>@/lib/api\<close> are imported by the page; their result
  objects are read through the fields below. An optional field is \<open>None\<close> when it is
  \<open>undefined\<close>.
\<close>

record prediction_result =
  pr_success :: bool
  pr_disease :: "string option"
  pr_confidence :: "real option"
  pr_error :: "string option"

record explanation_result =
  er_success :: bool
  er_explanation :: "string option"
  er_error :: "string option"

record voice_result =
  vr_success :: bool
  vr_audioBase64 :: "string option"
  vr_error :: "string option"

text \<open>
  What a \<open>catch\<close> can receive: an \<open>Error\<close> instance with its message, or any other
  value. An awaited promise resolves with a result or rejects with a thrown value.
\<close>

datatype thrown = ErrorObject string | OtherValue

datatype 'a outcome = Resolves 'a | Rejects thrown

record gateway =
  predictDisease :: "File \<Rightarrow> string \<Rightarrow> prediction_result outcome"
  getExplanation :: "string \<Rightarrow> string \<Rightarrow> string \<Rightarrow> explanation_result outcome"
  generateVoice :: "string \<Rightarrow> string \<Rightarrow> voice_result outcome"

datatype call =
    PredictDisease File string
  | GetExplanation string string string
  | GenerateVoice string string

datatype effect =
    SetSelectedCrop string
  | SetSelectedLanguage string
  | SetSelectedImage "File option"
  | SetAnalysisState AnalysisState
  | SetDisease string
  | SetConfidence real
  | SetExplanation string
  | SetAudioBase64 string
  | SetError string
  | SetPreview "string option"
  | Invoke call
  | Alert string
  | ConsoleError thrown
  | ReadAsDataURL File

fun apply_effect :: "ui \<Rightarrow> effect \<Rightarrow> ui" where
  "apply_effect s (SetSelectedCrop c) = s\<lparr>selectedCrop := c\<rparr>"
| "apply_effect s (SetSelectedLanguage l) = s\<lparr>selectedLanguage := l\<rparr>"
| "apply_effect s (SetSelectedImage f) = s\<lparr>selectedImage := f\<rparr>"
| "apply_effect s (SetAnalysisState a) = s\<lparr>analysisState := a\<rparr>"
| "apply_effect s (SetDisease d) = s\<lparr>disease := d\<rparr>"
| "apply_effect s (SetConfidence c) = s\<lparr>confidence := c\<rparr>"
| "apply_effect s (SetExplanation e) = s\<lparr>explanation := e\<rparr>"
| "apply_effect s (SetAudioBase64 a) = s\<lparr>audioBase64 := a\<rparr>"
| "apply_effect s (SetError e) = s\<lparr>error := e\<rparr>"
| "apply_effect s (SetPreview p) = s\<lparr>preview := p\<rparr>"
| "apply_effect s (Invoke c) = s"
| "apply_effect s (Alert m) = s"
| "apply_effect s (ConsoleError t) = s"
| "apply_effect s (ReadAsDataURL f) = s"

definition perform :: "effect list \<Rightarrow> ui \<Rightarrow> ui" where
  "perform es s = foldl apply_effect s es"

text \<open>The remote calls of an effect list, in order.\<close>

fun calls_of :: "effect list \<Rightarrow> call list" where
  "calls_of [] = []"
| "calls_of (Invoke c # es) = c # calls_of es"
| "calls_of (e # es) = calls_of es"

text \<open>The values \<open>setAnalysisState\<close> is called with, in order.\<close>

fun stages_of :: "effect list \<Rightarrow> AnalysisState list" where
  "stages_of [] = []"
| "stages_of (SetAnalysisState a # es) = a # stages_of es"
| "stages_of (e # es) = stages_of es"

section \<open>Handlers of the page\<close>

definition handleImageSelect :: "File \<Rightarrow> effect list" where
  "handleImageSelect file =
     [SetSelectedImage (Some file), SetAnalysisState Idle, SetDisease '''',
      SetExplanation '''', SetAudioBase64 '''', SetError '''']"

definition handleClearImage :: "effect list" where
  "handleClearImage =
     [SetSelectedImage None, SetAnalysisState Idle, SetDisease '''',
      SetExplanation '''', SetAudioBase64 '''', SetError '''']"

text \<open>JavaScript's \<open>x || d\<close> on an optional string: \<open>undefined\<close> and the empty string are falsy.\<close>

fun or_default :: "string option \<Rightarrow> string \<Rightarrow> string" where
  "or_default None d = d"
| "or_default (Some v) d = (if v = [] then d else v)"

definition fallback_explanation :: string where
  "fallback_explanation =
     ''Expert explanation currently unavailable. Please check the disease name and consult a local agronomist.''"

text \<open>The \<open>catch\<close> block of \<open>handleAnalyze\<close>.\<close>

definition catch_block :: "thrown \<Rightarrow> effect list" where
  "catch_block err =
     [ConsoleError err,
      SetError (case err of ErrorObject m \<Rightarrow> m | OtherValue \<Rightarrow> ''An error occurred during analysis''),
      SetAnalysisState Error]"

text \<open>
  The condition \<open>!predictionResult.success || !predictionResult.disease\<close>: the label is
  missing when it is \<open>undefined\<close> or empty.
\<close>

definition prediction_failed :: "prediction_result \<Rightarrow> bool" where
  "prediction_failed r \<longleftrightarrow>
     \<not> pr_success r \<or> (case pr_disease r of None \<Rightarrow> True | Some d \<Rightarrow> d = [])"

text \<open>The text chosen after \<open>getExplanation\<close> returns, and the payload after \<open>generateVoice\<close>.\<close>

definition explText_of :: "explanation_result \<Rightarrow> string" where
  "explText_of r =
     (case er_explanation r of
        Some e \<Rightarrow> if er_success r \<and> e \<noteq> [] then e else fallback_explanation
      | None \<Rightarrow> fallback_explanation)"

definition audio_of :: "voice_result \<Rightarrow> string" where
  "audio_of r =
     (case vr_audioBase64 r of
        Some a \<Rightarrow> if vr_success r \<and> a \<noteq> [] then a else ''''
      | None \<Rightarrow> '''')"

text \<open>
  \<open>handleAnalyze\<close>, read top to bottom. The handler closes over \<open>selectedImage\<close>,
  \<open>selectedCrop\<close> and \<open>selectedLanguage\<close> of the state it was created in. This definition
  runs one cycle to its end with no other handler in between; the interleaved machine is
  in the section on sessions. Where the prediction has not failed the label is a non-empty
  string, and \<open>or_default\<close> reads it.
\<close>

definition voice_stage :: "gateway \<Rightarrow> string \<Rightarrow> string \<Rightarrow> effect list" where
  "voice_stage gw explText lang =
     Invoke (GenerateVoice explText lang) #
     (case generateVoice gw explText lang of
        Rejects err \<Rightarrow> catch_block err
      | Resolves voiceResult \<Rightarrow>
          [SetAudioBase64 (audio_of voiceResult), SetAnalysisState Complete])"

definition explanation_stage :: "gateway \<Rightarrow> string \<Rightarrow> string \<Rightarrow> string \<Rightarrow> effect list" where
  "explanation_stage gw crop d lang =
     Invoke (GetExplanation crop d lang) #
     (case getExplanation gw crop d lang of
        Rejects err \<Rightarrow> catch_block err
      | Resolves explanationResult \<Rightarrow>
          [SetExplanation (explText_of explanationResult), SetAnalysisState GeneratingVoice]
          @ voice_stage gw (explText_of explanationResult) lang)"

definition handleAnalyze :: "gateway \<Rightarrow> ui \<Rightarrow> effect list" where
  "handleAnalyze gw s =
     (case selectedImage s of
        None \<Rightarrow> [SetError ''Please upload an image first'']
      | Some img \<Rightarrow>
          [SetAnalysisState Predicting, SetError '''',
           Invoke (PredictDisease img (selectedCrop s))]
          @ (case predictDisease gw img (selectedCrop s) of
               Rejects err \<Rightarrow> catch_block err
             | Resolves predictionResult \<Rightarrow>
                 if prediction_failed predictionResult
                 then catch_block
                        (ErrorObject (or_default (pr_error predictionResult) ''Failed to predict disease''))
                 else
                   [SetDisease (or_default (pr_disease predictionResult) []),
                    SetConfidence (case pr_confidence predictionResult of None \<Rightarrow> 0 | Some c \<Rightarrow> c),
                    SetAnalysisState Explaining]
                   @ explanation_stage gw (selectedCrop s)
                       (or_default (pr_disease predictionResult) []) (selectedLanguage s)))"

section \<open>The upload component\<close>

text \<open>\<open>String.prototype.startsWith\<close>.\<close>

definition startsWith :: "string \<Rightarrow> string \<Rightarrow> bool" where
  "startsWith s p \<longleftrightarrow> take (length p) s = p"

text \<open>
  \<open>handleFile\<close> of \<open>ImageUpload\<close>. The page passes \<open>handleImageSelect\<close> as the
  \<open>onImageSelect\<close> property and \<open>handleClearImage\<close> as \<open>onClear\<close>. The preview is set
  when the reader has finished, in \<open>reader_onloadend\<close>.
\<close>

definition handleFile :: "File \<Rightarrow> effect list" where
  "handleFile file =
     (if \<not> startsWith (file_type file) ''image/'' then [Alert ''Please upload an image file'']
      else if file_size file > 10 * 1024 * 1024 then [Alert ''File size must be less than 10MB'']
      else ReadAsDataURL file # handleImageSelect file)"

definition reader_onloadend :: "string option \<Rightarrow> effect list" where
  "reader_onloadend result = [SetPreview result]"

definition handleClear :: "effect list" where
  "handleClear = SetPreview None # handleClearImage"

section \<open>What the page renders\<close>

definition isLoading :: "ui \<Rightarrow> bool" where
  "isLoading s \<longleftrightarrow> analysisState s \<in> set [Predicting, Explaining, GeneratingVoice]"

text \<open>The \<open>disabled\<close> attribute of the Analyze button.\<close>

definition analyze_disabled :: "ui \<Rightarrow> bool" where
  "analyze_disabled s \<longleftrightarrow> selectedImage s = None \<or> isLoading s"

text \<open>
  The results column: each panel is rendered under its own condition, in the order of the
  JSX. A string is truthy when it is not empty.
\<close>

datatype panel =
    ErrorPanel string
  | DiseaseCard string real string string
  | ExplanationCard string
  | AudioPlayer string string string
  | SpeechFallback string
  | Placeholder

definition results_column :: "ui \<Rightarrow> panel list" where
  "results_column s =
     (if error s \<noteq> [] then [ErrorPanel (error s)] else [])
     @ (if disease s \<noteq> []
        then [DiseaseCard (disease s) (confidence s) (selectedCrop s) (selectedLanguage s)] else [])
     @ (if explanation s \<noteq> [] then [ExplanationCard (explanation s)] else [])
     @ (if audioBase64 s \<noteq> []
        then [AudioPlayer (audioBase64 s) (selectedLanguage s) (explanation s)] else [])
     @ (if explanation s \<noteq> [] \<and> audioBase64 s = [] \<and> analysisState s = Complete
        then [SpeechFallback (selectedLanguage s)] else [])
     @ (if analysisState s = Idle \<and> error s = [] then [Placeholder] else [])"

text \<open>The language buttons of the page: name and code of each entry of \<open>LANGUAGES\<close>.\<close>

definition LANGUAGES :: "(string \<times> string) list" where
  "LANGUAGES =
     [(''English'', ''en''), (''Hindi'', ''hi''), (''Telugu'', ''te''),
      (''Tamil'', ''ta''), (''Bengali'', ''bn''), (''Marathi'', ''mr'')]"

text \<open>
  The click handler of the local-speech control: \<open>langMap\<close> is an object literal with two
  keys, and \<open>utterance.lang = langMap[selectedLanguage] || 'en-US'\<close>. The selected language
  is always a name of \<open>LANGUAGES\<close>, so the properties an object inherits from its prototype
  are never looked up.
\<close>

definition langMap :: "(string \<times> string) list" where
  "langMap = [(''Hindi'', ''hi-IN''), (''English'', ''en-US'')]"

definition utterance_lang :: "string \<Rightarrow> string" where
  "utterance_lang lang = or_default (map_of langMap lang) ''en-US''"

section \<open>Sessions: cycles interleaved with other handlers\<close>

text \<open>
  \<open>handleAnalyze\<close> is an \<open>async\<close> function: at each \<open>await\<close> it is suspended and other
  handlers may run. A suspended cycle is the call it waits for, with \<open>selectedLanguage\<close> of
  its closure; a started \<open>FileReader\<close> is pending in the same way. A setter called
  by a resumed cycle writes the cell of the mounted page, whatever handlers ran in between;
  nothing in the source cancels a pending call. The pieces of \<open>handleAnalyze\<close> between
  two suspension points follow.
\<close>

datatype pending = Awaiting call string | Reading File

fun option_list :: "'a option \<Rightarrow> 'a list" where
  "option_list None = []"
| "option_list (Some x) = [x]"

definition analyze_begin :: "ui \<Rightarrow> effect list \<times> pending option" where
  "analyze_begin s =
     (case selectedImage s of
        None \<Rightarrow> ([SetError ''Please upload an image first''], None)
      | Some img \<Rightarrow>
          ([SetAnalysisState Predicting, SetError '''',
            Invoke (PredictDisease img (selectedCrop s))],
           Some (Awaiting (PredictDisease img (selectedCrop s)) (selectedLanguage s))))"

definition after_prediction ::
  "string \<Rightarrow> string \<Rightarrow> prediction_result outcome \<Rightarrow> effect list \<times> pending option" where
  "after_prediction crop lang out =
     (case out of
        Rejects err \<Rightarrow> (catch_block err, None)
      | Resolves predictionResult \<Rightarrow>
          if prediction_failed predictionResult
          then (catch_block
                  (ErrorObject (or_default (pr_error predictionResult) ''Failed to predict disease'')),
                None)
          else
            ([SetDisease (or_default (pr_disease predictionResult) []),
              SetConfidence (case pr_confidence predictionResult of None \<Rightarrow> 0 | Some c \<Rightarrow> c),
              SetAnalysisState Explaining,
              Invoke (GetExplanation crop (or_default (pr_disease predictionResult) []) lang)],
             Some (Awaiting
                     (GetExplanation crop (or_default (pr_disease predictionResult) []) lang) lang)))"

definition after_explanation ::
  "string \<Rightarrow> explanation_result outcome \<Rightarrow> effect list \<times> pending option" where
  "after_explanation lang out =
     (case out of
        Rejects err \<Rightarrow> (catch_block err, None)
      | Resolves explanationResult \<Rightarrow>
          ([SetExplanation (explText_of explanationResult), SetAnalysisState GeneratingVoice,
            Invoke (GenerateVoice (explText_of explanationResult) lang)],
           Some (Awaiting (GenerateVoice (explText_of explanationResult) lang) lang)))"

definition after_voice :: "voice_result outcome \<Rightarrow> effect list \<times> pending option" where
  "after_voice out =
     (case out of
        Rejects err \<Rightarrow> (catch_block err, None)
      | Resolves voiceResult \<Rightarrow>
          ([SetAudioBase64 (audio_of voiceResult), SetAnalysisState Complete], None))"

text \<open>What a pending operation settles with, and how it resumes.\<close>

datatype settlement =
    Prediction "prediction_result outcome"
  | Explanation "explanation_result outcome"
  | Voice "voice_result outcome"
  | Loaded "string option"

fun resume :: "pending \<Rightarrow> settlement \<Rightarrow> (effect list \<times> pending option) option" where
  "resume (Awaiting (PredictDisease img crop) lang) (Prediction out) =
     Some (after_prediction crop lang out)"
| "resume (Awaiting (GetExplanation crop d l) lang) (Explanation out) =
     Some (after_explanation lang out)"
| "resume (Awaiting (GenerateVoice t l) lang) (Voice out) = Some (after_voice out)"
| "resume (Reading f) (Loaded r) = Some (reader_onloadend r, None)"
| "resume _ _ = None"

record session =
  cells :: ui
  inflight :: "pending list"

definition initial_session :: session where
  "initial_session = \<lparr> cells = initial_ui, inflight = [] \<rparr>"

fun is_cycle :: "pending \<Rightarrow> bool" where
  "is_cycle (Awaiting c l) = True"
| "is_cycle (Reading f) = False"

definition cycles_in_flight :: "session \<Rightarrow> nat" where
  "cycles_in_flight w = length (filter is_cycle (inflight w))"

text \<open>
  The events of a session. A click reaches \<open>handleAnalyze\<close> only when the button is not
  disabled; the file input exists only while there is no preview, the remove button only
  while there is one. \<open>Settles i r\<close> settles the \<open>i\<close>-th pending operation with \<open>r\<close>.
  An event that cannot happen in the state gives \<open>None\<close>.
\<close>

datatype event =
    ClickAnalyze
  | ChooseFile File
  | ClickRemove
  | PickCrop string
  | PickLanguage string
  | Settles nat settlement

fun reads_of :: "effect list \<Rightarrow> pending list" where
  "reads_of [] = []"
| "reads_of (ReadAsDataURL f # es) = Reading f # reads_of es"
| "reads_of (e # es) = reads_of es"

fun fire :: "event \<Rightarrow> session \<Rightarrow> session option" where
  "fire ClickAnalyze w =
     (if analyze_disabled (cells w) then None
      else Some \<lparr> cells = perform (fst (analyze_begin (cells w))) (cells w),
                  inflight = inflight w @ option_list (snd (analyze_begin (cells w))) \<rparr>)"
| "fire (ChooseFile file) w =
     (if preview (cells w) \<noteq> None then None
      else Some \<lparr> cells = perform (handleFile file) (cells w),
                  inflight = inflight w @ reads_of (handleFile file) \<rparr>)"
| "fire ClickRemove w =
     (if preview (cells w) = None then None
      else Some \<lparr> cells = perform handleClear (cells w), inflight = inflight w \<rparr>)"
| "fire (PickCrop c) w = Some (w\<lparr> cells := perform [SetSelectedCrop c] (cells w) \<rparr>)"
| "fire (PickLanguage l) w = Some (w\<lparr> cells := perform [SetSelectedLanguage l] (cells w) \<rparr>)"
| "fire (Settles i r) w =
     (if i < length (inflight w) then
        (case resume (inflight w ! i) r of
           None \<Rightarrow> None
         | Some (es, next) \<Rightarrow>
             Some \<lparr> cells = perform es (cells w),
                    inflight = take i (inflight w) @ option_list next @ drop (Suc i) (inflight w) \<rparr>)
      else None)"

fun run :: "event list \<Rightarrow> session \<Rightarrow> session option" where
  "run [] w = Some w"
| "run (e # es) w = (case fire e w of None \<Rightarrow> None | Some w' \<Rightarrow> run es w')"

text \<open>
  \<open>handleFile\<close> accepts a file when it forwards it to the page. A run in which a new
  image is selected only while no cycle is in flight; removing the image, and choosing a
  file that is rejected, may happen at any time.
\<close>

definition accepted :: "File \<Rightarrow> bool" where
  "accepted f \<longleftrightarrow> SetSelectedImage (Some f) \<in> set (handleFile f)"

fun selects_image :: "event \<Rightarrow> bool" where
  "selects_image (ChooseFile f) = accepted f"
| "selects_image e = False"

fun selections_at_rest :: "event list \<Rightarrow> session \<Rightarrow> bool" where
  "selections_at_rest [] w = True"
| "selections_at_rest (e # es) w =
     ((selects_image e \<longrightarrow> cycles_in_flight w = 0) \<and>
      (case fire e w of None \<Rightarrow> True | Some w' \<Rightarrow> selections_at_rest es w'))"

text \<open>
  A cycle run to its end against a gateway, piece by piece: each pending call settles with
  the gateway's answer and no other event comes in between.
\<close>

fun answer :: "gateway \<Rightarrow> call \<Rightarrow> settlement" where
  "answer gw (PredictDisease img crop) = Prediction (predictDisease gw img crop)"
| "answer gw (GetExplanation crop d lang) = Explanation (getExplanation gw crop d lang)"
| "answer gw (GenerateVoice t lang) = Voice (generateVoice gw t lang)"

fun complete_cycle :: "gateway \<Rightarrow> nat \<Rightarrow> pending option \<Rightarrow> effect list" where
  "complete_cycle gw (Suc n) (Some (Awaiting c lang)) =
     (case resume (Awaiting c lang) (answer gw c) of
        None \<Rightarrow> []
      | Some (es, next) \<Rightarrow> es @ complete_cycle gw n next)"
| "complete_cycle gw n p = []"

text \<open>
  At most one cycle is in flight, and while one is, the Analyze button is disabled.
\<close>

definition single_cycle :: "session \<Rightarrow> bool" where
  "single_cycle w \<longleftrightarrow>
     cycles_in_flight w \<le> 1 \<and> (cycles_in_flight w = 1 \<longrightarrow> analyze_disabled (cells w))"


text \<open>No cycle is in flight and no result is in the state.\<close>

definition nothing_shown :: "session \<Rightarrow> bool" where
  "nothing_shown w \<longleftrightarrow>
     cycles_in_flight w = 0 \<and> analysisState (cells w) = Idle \<and> disease (cells w) = []
     \<and> explanation (cells w) = [] \<and> audioBase64 (cells w) = [] \<and> error (cells w) = []"

text \<open>
  The session as it would be had no analysis been run: no result in the cells and no
  cycle pending. Two sessions show the same when they agree on the pending operations and
  on every cell, the confidence apart where no disease label is set (the confidence is
  rendered inside the disease card only).
\<close>

definition without_history :: "session \<Rightarrow> session" where
  "without_history w =
     \<lparr> cells = (cells w)\<lparr> selectedImage := None, analysisState := Idle, disease := [],
                 confidence := 0, explanation := [], audioBase64 := [], error := [] \<rparr>,
       inflight = filter (\<lambda>p. \<not> is_cycle p) (inflight w) \<rparr>"

definition same_cells :: "ui \<Rightarrow> ui \<Rightarrow> bool" where
  "same_cells s t \<longleftrightarrow>
     selectedCrop s = selectedCrop t \<and> selectedLanguage s = selectedLanguage t
     \<and> selectedImage s = selectedImage t \<and> analysisState s = analysisState t
     \<and> disease s = disease t \<and> explanation s = explanation t
     \<and> audioBase64 s = audioBase64 t \<and> error s = error t \<and> preview s = preview t
     \<and> (disease s \<noteq> [] \<longrightarrow> confidence s = confidence t)"

definition same_view :: "session \<Rightarrow> session \<Rightarrow> bool" where
  "same_view w v \<longleftrightarrow> inflight w = inflight v \<and> same_cells (cells w) (cells v)"

section \<open>Example inputs\<close>

definition healthy_leaf :: File where
  "healthy_leaf = \<lparr> file_name = ''healthy_leaf.jpg'', file_type = ''image/jpeg'', file_size = 3145728 \<rparr>"

definition second_leaf :: File where
  "second_leaf = \<lparr> file_name = ''second_leaf.png'', file_type = ''image/png'', file_size = 10485760 \<rparr>"

definition oversized_leaf :: File where
  "oversized_leaf = \<lparr> file_name = ''big.png'', file_type = ''image/png'', file_size = 10485761 \<rparr>"

definition leaf_selected :: ui where
  "leaf_selected = initial_ui\<lparr> selectedImage := Some healthy_leaf \<rparr>"

definition early_blight :: prediction_result where
  "early_blight = \<lparr> pr_success = True, pr_disease = Some ''Early Blight'',
     pr_confidence = Some 0.87, pr_error = None \<rparr>"

definition model_unavailable :: prediction_result where
  "model_unavailable = \<lparr> pr_success = False, pr_disease = None,
     pr_confidence = None, pr_error = Some ''model unavailable'' \<rparr>"

definition label_missing :: prediction_result where
  "label_missing = \<lparr> pr_success = True, pr_disease = None,
     pr_confidence = Some 0.5, pr_error = None \<rparr>"

definition blight_text :: explanation_result where
  "blight_text = \<lparr> er_success = True, er_explanation = Some ''Early blight is caused by...'',
     er_error = None \<rparr>"

definition no_text :: explanation_result where
  "no_text = \<lparr> er_success = False, er_explanation = None, er_error = Some ''quota exceeded'' \<rparr>"

definition spoken :: voice_result where
  "spoken = \<lparr> vr_success = True, vr_audioBase64 = Some ''UklGRg=='', vr_error = None \<rparr>"

definition no_voice :: voice_result where
  "no_voice = \<lparr> vr_success = False, vr_audioBase64 = None, vr_error = Some ''tts failed'' \<rparr>"

definition gateway_ok :: gateway where
  "gateway_ok = \<lparr> predictDisease = (\<lambda>img crop. Resolves early_blight),
     getExplanation = (\<lambda>crop d lang. Resolves blight_text),
     generateVoice = (\<lambda>text lang. Resolves spoken) \<rparr>"

definition gateway_classifier_down :: gateway where
  "gateway_classifier_down = gateway_ok\<lparr> predictDisease := (\<lambda>img crop. Resolves model_unavailable) \<rparr>"

definition gateway_label_missing :: gateway where
  "gateway_label_missing = gateway_ok\<lparr> predictDisease := (\<lambda>img crop. Resolves label_missing) \<rparr>"

definition gateway_no_text :: gateway where
  "gateway_no_text = gateway_ok\<lparr> getExplanation := (\<lambda>crop d lang. Resolves no_text) \<rparr>"

definition gateway_no_voice :: gateway where
  "gateway_no_voice = gateway_ok\<lparr> generateVoice := (\<lambda>text lang. Resolves no_voice) \<rparr>"

text \<open>The state after a successful cycle.\<close>

definition after_first_cycle :: ui where
  "after_first_cycle = perform (handleAnalyze gateway_ok leaf_selected) leaf_selected"

text \<open>
  Two runs of a session. In the first the image is removed and another one chosen while
  the classification call is pending. In the second one cycle runs to its end.
\<close>

definition before_second_click :: "event list" where
  "before_second_click =
     [ChooseFile healthy_leaf, Settles 0 (Loaded (Some ''data:image/jpeg;base64,AAAA'')),
      ClickAnalyze, ClickRemove, ChooseFile second_leaf]"

definition reselected_mid_flight :: session where
  "reselected_mid_flight =
     \<lparr> cells = initial_ui\<lparr> selectedImage := Some second_leaf \<rparr>,
       inflight = [Awaiting (PredictDisease healthy_leaf ''Tomato'') ''English'',
                   Reading second_leaf] \<rparr>"

definition one_cycle_run :: "event list" where
  "one_cycle_run =
     [ChooseFile healthy_leaf, Settles 0 (Loaded (Some ''data:image/jpeg;base64,AAAA'')),
      ClickAnalyze, Settles 0 (Prediction (Resolves early_blight)),
      Settles 0 (Explanation (Resolves blight_text)), Settles 0 (Voice (Resolves spoken))]"

definition after_one_cycle_run :: session where
  "after_one_cycle_run =
     \<lparr> cells = after_first_cycle\<lparr> preview := Some ''data:image/jpeg;base64,AAAA'' \<rparr>,
       inflight = [] \<rparr>"



text \<open>
  A run in which the image is removed while the classification call is pending and the
  call then succeeds; no new image is selected.
\<close>

definition remove_mid_flight_run :: "event list" where
  "remove_mid_flight_run =
     [ChooseFile healthy_leaf, Settles 0 (Loaded (Some ''data:image/jpeg;base64,AAAA'')),
      ClickAnalyze, ClickRemove, Settles 0 (Prediction (Resolves early_blight))]"

definition removed_mid_flight :: session where
  "removed_mid_flight =
     \<lparr> cells = initial_ui\<lparr> analysisState := Explaining, disease := ''Early Blight'',
                 confidence := 0.87 \<rparr>,
       inflight = [Awaiting (GetExplanation ''Tomato'' ''Early Blight'' ''English'') ''English''] \<rparr>"

text \<open>
  A run in which a second image is selected while the classification call for the first
  is pending, and the call then succeeds.
\<close>

definition late_prediction_run :: "event list" where
  "late_prediction_run =
     before_second_click @ [Settles 0 (Prediction (Resolves early_blight))]"

definition stale_card_session :: session where
  "stale_card_session =
     \<lparr> cells = initial_ui\<lparr> selectedImage := Some second_leaf, analysisState := Explaining,
                 disease := ''Early Blight'', confidence := 0.87 \<rparr>,
       inflight = [Awaiting (GetExplanation ''Tomato'' ''Early Blight'' ''English'') ''English'',
                   Reading second_leaf] \<rparr>"

text \<open>
  After the cycle of \<open>one_cycle_run\<close>: the image is removed, a second image is chosen, and
  its preview is loaded.
\<close>

definition cleared_after_cycle :: session where
  "cleared_after_cycle = \<lparr> cells = initial_ui\<lparr> confidence := 0.87 \<rparr>, inflight = [] \<rparr>"

definition second_chosen :: session where
  "second_chosen =
     \<lparr> cells = initial_ui\<lparr> confidence := 0.87, selectedImage := Some second_leaf \<rparr>,
       inflight = [Reading second_leaf] \<rparr>"

definition second_previewed :: session where
  "second_previewed =
     \<lparr> cells = initial_ui\<lparr> confidence := 0.87, selectedImage := Some second_leaf,
                 preview := Some ''data:image/png;base64,BBBB'' \<rparr>,
       inflight = [] \<rparr>"

text \<open>
  A cycle that ends before the preview reader has finished, and, after a second image is
  chosen, an analysis whose classification fails.
\<close>

definition shown_before_preview :: session where
  "shown_before_preview = \<lparr> cells = after_first_cycle, inflight = [Reading healthy_leaf] \<rparr>"

definition analysis_before_preview_run :: "event list" where
  "analysis_before_preview_run =
     [ChooseFile healthy_leaf, ClickAnalyze, Settles 1 (Prediction (Resolves early_blight)),
      Settles 1 (Explanation (Resolves blight_text)), Settles 1 (Voice (Resolves spoken))]"

definition second_analysis_fails :: "event list" where
  "second_analysis_fails =
     [ClickAnalyze, Settles 2 (Prediction (Resolves model_unavailable))]"

section \<open>Effect lists\<close>

lemma perform_append: "perform (xs @ ys) s = perform ys (perform xs s)"
  by (simp add: perform_def)

lemma perform_Cons: "perform (e # es) s = perform es (apply_effect s e)"
  by (simp add: perform_def)

lemma perform_Nil: "perform [] s = s"
  by (simp add: perform_def)

lemma calls_of_append: "calls_of (xs @ ys) = calls_of xs @ calls_of ys"
  by (induction xs rule: calls_of.induct) simp_all

lemma stages_of_append: "stages_of (xs @ ys) = stages_of xs @ stages_of ys"
  by (induction xs rule: stages_of.induct) simp_all

lemma calls_of_catch: "calls_of (catch_block err) = []"
  by (simp add: catch_block_def)

lemma stages_of_catch: "stages_of (catch_block err) = [Error]"
  by (simp add: catch_block_def)

lemma perform_catch:
  "perform (catch_block err) s =
     s\<lparr>error := (case err of ErrorObject m \<Rightarrow> m | OtherValue \<Rightarrow> ''An error occurred during analysis''),
       analysisState := Error\<rparr>"
  by (simp add: catch_block_def perform_Cons perform_Nil)

section \<open>One analysis cycle\<close>

text \<open>
  C1. When the classification call returns \<open>success = false\<close> or no disease label
  (\<open>undefined\<close> or empty), the cycle ends in the state \<open>error\<close>; the error message is the
  gateway's message when it gave a non-empty one, and \<open>Failed to predict disease\<close> when it
  gave none (or an empty one); the only remote call of the cycle is the classification
  call, so neither the explanation call nor the voice call is made.
\<close>

theorem classification_failure_is_fatal:
  assumes img: "selectedImage s = Some img"
    and res: "predictDisease gw img (selectedCrop s) = Resolves r"
    and bad: "\<not> pr_success r \<or> pr_disease r = None \<or> pr_disease r = Some []"
  shows "analysisState (perform (handleAnalyze gw s) s) = Error
       \<and> error (perform (handleAnalyze gw s) s) =
           (case pr_error r of
              None \<Rightarrow> ''Failed to predict disease''
            | Some m \<Rightarrow> if m = [] then ''Failed to predict disease'' else m)
       \<and> calls_of (handleAnalyze gw s) = [PredictDisease img (selectedCrop s)]
       \<and> stages_of (handleAnalyze gw s) = [Predicting, Error]"
proof -
  from bad have failed: "prediction_failed r"
    by (auto simp: prediction_failed_def)
  have msg: "or_default (pr_error r) ''Failed to predict disease'' =
      (case pr_error r of
         None \<Rightarrow> ''Failed to predict disease''
       | Some m \<Rightarrow> if m = [] then ''Failed to predict disease'' else m)"
    by (cases "pr_error r") simp_all
  have run: "handleAnalyze gw s =
      [SetAnalysisState Predicting, SetError [], Invoke (PredictDisease img (selectedCrop s))]
      @ catch_block (ErrorObject (or_default (pr_error r) ''Failed to predict disease''))"
    using img res failed by (simp add: handleAnalyze_def)
  have st: "analysisState (perform (handleAnalyze gw s) s) = Error"
    and er: "error (perform (handleAnalyze gw s) s)
               = or_default (pr_error r) ''Failed to predict disease''"
    and cs: "calls_of (handleAnalyze gw s) = [PredictDisease img (selectedCrop s)]"
    and sg: "stages_of (handleAnalyze gw s) = [Predicting, Error]"
    unfolding run
    by (simp_all add: perform_append perform_Cons perform_Nil perform_catch
        calls_of_append stages_of_append calls_of_catch stages_of_catch)
  from st er [unfolded msg] cs sg show ?thesis by blast
qed

theorem classification_failure_is_fatal_witness:
  "selectedImage leaf_selected = Some healthy_leaf
   \<and> predictDisease gateway_classifier_down healthy_leaf (selectedCrop leaf_selected)
       = Resolves model_unavailable
   \<and> \<not> pr_success model_unavailable
   \<and> pr_error model_unavailable = Some ''model unavailable''
   \<and> analysisState (perform (handleAnalyze gateway_classifier_down leaf_selected) leaf_selected) = Error
   \<and> error (perform (handleAnalyze gateway_classifier_down leaf_selected) leaf_selected)
       = ''model unavailable''
   \<and> calls_of (handleAnalyze gateway_classifier_down leaf_selected)
       = [PredictDisease healthy_leaf ''Tomato'']
   \<and> predictDisease gateway_label_missing healthy_leaf (selectedCrop leaf_selected)
       = Resolves label_missing
   \<and> pr_disease label_missing = None
   \<and> pr_error label_missing = None
   \<and> analysisState (perform (handleAnalyze gateway_label_missing leaf_selected) leaf_selected) = Error
   \<and> error (perform (handleAnalyze gateway_label_missing leaf_selected) leaf_selected)
       = ''Failed to predict disease''
   \<and> calls_of (handleAnalyze gateway_label_missing leaf_selected)
       = [PredictDisease healthy_leaf ''Tomato'']"
proof -
  have a: "selectedImage leaf_selected = Some healthy_leaf"
    by (simp add: leaf_selected_def initial_ui_def)
  have d: "selectedCrop leaf_selected = ''Tomato''"
    by (simp add: leaf_selected_def initial_ui_def)
  have b: "predictDisease gateway_classifier_down healthy_leaf (selectedCrop leaf_selected)
             = Resolves model_unavailable"
    by (simp add: gateway_classifier_down_def gateway_ok_def)
  have c: "\<not> pr_success model_unavailable \<or> pr_disease model_unavailable = None
             \<or> pr_disease model_unavailable = Some []"
    by (simp add: model_unavailable_def)
  have c1: "\<not> pr_success model_unavailable"
    and e: "pr_error model_unavailable = Some ''model unavailable''"
    by (simp_all add: model_unavailable_def)
  note down = classification_failure_is_fatal [OF a b c]
  from down have f1: "analysisState
      (perform (handleAnalyze gateway_classifier_down leaf_selected) leaf_selected) = Error"
    by blast
  from down have f2: "error (perform (handleAnalyze gateway_classifier_down leaf_selected) leaf_selected)
      = ''model unavailable''"
    by (simp add: e)
  from down have f3: "calls_of (handleAnalyze gateway_classifier_down leaf_selected)
      = [PredictDisease healthy_leaf ''Tomato'']"
    by (simp add: d)
  have b': "predictDisease gateway_label_missing healthy_leaf (selectedCrop leaf_selected)
             = Resolves label_missing"
    by (simp add: gateway_label_missing_def gateway_ok_def)
  have c': "\<not> pr_success label_missing \<or> pr_disease label_missing = None
             \<or> pr_disease label_missing = Some []"
    by (simp add: label_missing_def)
  have g: "pr_disease label_missing = None" and e': "pr_error label_missing = None"
    by (simp_all add: label_missing_def)
  note missing = classification_failure_is_fatal [OF a b' c']
  from missing have h1: "analysisState
      (perform (handleAnalyze gateway_label_missing leaf_selected) leaf_selected) = Error"
    by blast
  from missing have h2: "error (perform (handleAnalyze gateway_label_missing leaf_selected) leaf_selected)
      = ''Failed to predict disease''"
    by (simp add: e')
  from missing have h3: "calls_of (handleAnalyze gateway_label_missing leaf_selected)
      = [PredictDisease healthy_leaf ''Tomato'']"
    by (simp add: d)
  from a b c1 e f1 f2 f3 b' g e' h1 h2 h3 show ?thesis by blast
qed

lemma calls_of_voice_stage: "calls_of (voice_stage gw t l) = [GenerateVoice t l]"
  by (simp add: voice_stage_def calls_of_catch split: outcome.split)

lemma explanation_voice_stage: "explanation (perform (voice_stage gw t l) s) = explanation s"
  by (simp add: voice_stage_def perform_Cons perform_Nil perform_catch split: outcome.split)

text \<open>
  C2. When classification succeeds and the explanation call returns \<open>success = false\<close>,
  the recorded explanation is the fixed fallback string, the voice call is made with that
  string, and the stages set are \<open>predicting\<close>, \<open>explaining\<close>, \<open>generating-voice\<close>:
  the explanation failure does not lead to \<open>error\<close>. The first conjunct gives the whole
  effect list up to the voice stage.
\<close>

theorem explanation_failure_falls_back:
  assumes img: "selectedImage s = Some img"
    and pred: "predictDisease gw img (selectedCrop s) = Resolves pr"
    and ok: "pr_success pr" "pr_disease pr = Some d" "d \<noteq> []"
    and expl: "getExplanation gw (selectedCrop s) d (selectedLanguage s) = Resolves er"
    and bad: "\<not> er_success er"
  shows "handleAnalyze gw s =
           [SetAnalysisState Predicting, SetError [], Invoke (PredictDisease img (selectedCrop s)),
            SetDisease d, SetConfidence (case pr_confidence pr of None \<Rightarrow> 0 | Some c \<Rightarrow> c),
            SetAnalysisState Explaining,
            Invoke (GetExplanation (selectedCrop s) d (selectedLanguage s)),
            SetExplanation fallback_explanation, SetAnalysisState GeneratingVoice]
           @ voice_stage gw fallback_explanation (selectedLanguage s)
       \<and> explanation (perform (handleAnalyze gw s) s) = fallback_explanation
       \<and> calls_of (handleAnalyze gw s) =
           [PredictDisease img (selectedCrop s),
            GetExplanation (selectedCrop s) d (selectedLanguage s),
            GenerateVoice fallback_explanation (selectedLanguage s)]
       \<and> take 3 (stages_of (handleAnalyze gw s)) = [Predicting, Explaining, GeneratingVoice]"
proof -
  from ok have fine: "\<not> prediction_failed pr" and lab: "or_default (pr_disease pr) [] = d"
    by (simp_all add: prediction_failed_def)
  from bad have fb: "explText_of er = fallback_explanation"
    by (simp add: explText_of_def split: option.split)
  have run: "handleAnalyze gw s =
           [SetAnalysisState Predicting, SetError [], Invoke (PredictDisease img (selectedCrop s)),
            SetDisease d, SetConfidence (case pr_confidence pr of None \<Rightarrow> 0 | Some c \<Rightarrow> c),
            SetAnalysisState Explaining,
            Invoke (GetExplanation (selectedCrop s) d (selectedLanguage s)),
            SetExplanation fallback_explanation, SetAnalysisState GeneratingVoice]
           @ voice_stage gw fallback_explanation (selectedLanguage s)"
    using img pred fine lab expl fb
    by (simp add: handleAnalyze_def explanation_stage_def)
  have a: "explanation (perform (handleAnalyze gw s) s) = fallback_explanation"
    unfolding run
    by (simp add: perform_append perform_Cons perform_Nil explanation_voice_stage)
  have b: "calls_of (handleAnalyze gw s) =
           [PredictDisease img (selectedCrop s),
            GetExplanation (selectedCrop s) d (selectedLanguage s),
            GenerateVoice fallback_explanation (selectedLanguage s)]"
    unfolding run by (simp add: calls_of_append calls_of_voice_stage)
  have c: "take 3 (stages_of (handleAnalyze gw s)) = [Predicting, Explaining, GeneratingVoice]"
    unfolding run by (simp add: stages_of_append)
  from run a b c show ?thesis by blast
qed

theorem explanation_failure_falls_back_witness:
  "selectedImage leaf_selected = Some healthy_leaf
   \<and> \<not> er_success no_text
   \<and> explanation (perform (handleAnalyze gateway_no_text leaf_selected) leaf_selected) = fallback_explanation
   \<and> calls_of (handleAnalyze gateway_no_text leaf_selected) =
       [PredictDisease healthy_leaf ''Tomato'', GetExplanation ''Tomato'' ''Early Blight'' ''English'',
        GenerateVoice fallback_explanation ''English'']
   \<and> stages_of (handleAnalyze gateway_no_text leaf_selected)
       = [Predicting, Explaining, GeneratingVoice, Complete]"
proof -
  have a: "selectedImage leaf_selected = Some healthy_leaf"
    by (simp add: leaf_selected_def initial_ui_def)
  have b: "predictDisease gateway_no_text healthy_leaf (selectedCrop leaf_selected) = Resolves early_blight"
    by (simp add: gateway_no_text_def gateway_ok_def)
  have c: "pr_success early_blight" "pr_disease early_blight = Some ''Early Blight''" "''Early Blight'' \<noteq> []"
    by (simp_all add: early_blight_def)
  have d: "getExplanation gateway_no_text (selectedCrop leaf_selected) ''Early Blight''
             (selectedLanguage leaf_selected) = Resolves no_text"
    by (simp add: gateway_no_text_def gateway_ok_def)
  have e: "\<not> er_success no_text" by (simp add: no_text_def)
  have f: "selectedCrop leaf_selected = ''Tomato''" "selectedLanguage leaf_selected = ''English''"
    by (simp_all add: leaf_selected_def initial_ui_def)
  have g: "voice_stage gateway_no_text fallback_explanation ''English''
      = [Invoke (GenerateVoice fallback_explanation ''English''),
         SetAudioBase64 ''UklGRg=='', SetAnalysisState Complete]"
    by (simp add: voice_stage_def gateway_no_text_def gateway_ok_def audio_of_def spoken_def)
  note th = explanation_failure_falls_back [OF a b c d e]
  from th have run: "handleAnalyze gateway_no_text leaf_selected =
           [SetAnalysisState Predicting, SetError [],
            Invoke (PredictDisease healthy_leaf (selectedCrop leaf_selected)),
            SetDisease ''Early Blight'',
            SetConfidence (case pr_confidence early_blight of None \<Rightarrow> 0 | Some c \<Rightarrow> c),
            SetAnalysisState Explaining,
            Invoke (GetExplanation (selectedCrop leaf_selected) ''Early Blight''
                      (selectedLanguage leaf_selected)),
            SetExplanation fallback_explanation, SetAnalysisState GeneratingVoice]
           @ voice_stage gateway_no_text fallback_explanation (selectedLanguage leaf_selected)"
    by blast
  have h: "stages_of (handleAnalyze gateway_no_text leaf_selected)
       = [Predicting, Explaining, GeneratingVoice, Complete]"
    unfolding run f g by (simp add: stages_of_append)
  from th have x: "explanation (perform (handleAnalyze gateway_no_text leaf_selected) leaf_selected)
      = fallback_explanation"
    by blast
  from th have "calls_of (handleAnalyze gateway_no_text leaf_selected) =
       [PredictDisease healthy_leaf (selectedCrop leaf_selected),
        GetExplanation (selectedCrop leaf_selected) ''Early Blight'' (selectedLanguage leaf_selected),
        GenerateVoice fallback_explanation (selectedLanguage leaf_selected)]"
    by blast
  then have y: "calls_of (handleAnalyze gateway_no_text leaf_selected) =
       [PredictDisease healthy_leaf ''Tomato'', GetExplanation ''Tomato'' ''Early Blight'' ''English'',
        GenerateVoice fallback_explanation ''English'']"
    unfolding f .
  from a e x y h show ?thesis by blast
qed

text \<open>
  C3. When classification succeeds, the explanation call returns (in particular when it
  succeeds) and the voice call returns \<open>success = false\<close> or no audio payload, the cycle
  ends in \<open>complete\<close> with an empty audio payload.
\<close>

theorem voice_failure_completes:
  assumes img: "selectedImage s = Some img"
    and pred: "predictDisease gw img (selectedCrop s) = Resolves pr"
    and ok: "pr_success pr" "pr_disease pr = Some d" "d \<noteq> []"
    and expl: "getExplanation gw (selectedCrop s) d (selectedLanguage s) = Resolves er"
    and voice: "generateVoice gw (explText_of er) (selectedLanguage s) = Resolves vr"
    and bad: "\<not> vr_success vr \<or> vr_audioBase64 vr = None \<or> vr_audioBase64 vr = Some []"
  shows "analysisState (perform (handleAnalyze gw s) s) = Complete
       \<and> audioBase64 (perform (handleAnalyze gw s) s) = []
       \<and> stages_of (handleAnalyze gw s) = [Predicting, Explaining, GeneratingVoice, Complete]"
proof -
  from ok have fine: "\<not> prediction_failed pr" and lab: "or_default (pr_disease pr) [] = d"
    by (simp_all add: prediction_failed_def)
  from bad have none: "audio_of vr = []"
    by (auto simp: audio_of_def split: option.split)
  have run: "handleAnalyze gw s =
           [SetAnalysisState Predicting, SetError [], Invoke (PredictDisease img (selectedCrop s)),
            SetDisease d, SetConfidence (case pr_confidence pr of None \<Rightarrow> 0 | Some c \<Rightarrow> c),
            SetAnalysisState Explaining,
            Invoke (GetExplanation (selectedCrop s) d (selectedLanguage s)),
            SetExplanation (explText_of er), SetAnalysisState GeneratingVoice,
            Invoke (GenerateVoice (explText_of er) (selectedLanguage s)),
            SetAudioBase64 [], SetAnalysisState Complete]"
    using img pred fine lab expl voice none
    by (simp add: handleAnalyze_def explanation_stage_def voice_stage_def)
  show ?thesis
    unfolding run by (simp add: perform_Cons perform_Nil)
qed

theorem voice_failure_completes_witness:
  "selectedImage leaf_selected = Some healthy_leaf
   \<and> er_success blight_text
   \<and> generateVoice gateway_no_voice ''Early blight is caused by...'' ''English'' = Resolves no_voice
   \<and> \<not> vr_success no_voice
   \<and> analysisState (perform (handleAnalyze gateway_no_voice leaf_selected) leaf_selected) = Complete
   \<and> audioBase64 (perform (handleAnalyze gateway_no_voice leaf_selected) leaf_selected) = []"
proof -
  have a: "selectedImage leaf_selected = Some healthy_leaf"
    by (simp add: leaf_selected_def initial_ui_def)
  have b: "predictDisease gateway_no_voice healthy_leaf (selectedCrop leaf_selected) = Resolves early_blight"
    by (simp add: gateway_no_voice_def gateway_ok_def)
  have c: "pr_success early_blight" "pr_disease early_blight = Some ''Early Blight''" "''Early Blight'' \<noteq> []"
    by (simp_all add: early_blight_def)
  have d: "getExplanation gateway_no_voice (selectedCrop leaf_selected) ''Early Blight''
             (selectedLanguage leaf_selected) = Resolves blight_text"
    by (simp add: gateway_no_voice_def gateway_ok_def)
  have e: "generateVoice gateway_no_voice (explText_of blight_text) (selectedLanguage leaf_selected)
             = Resolves no_voice"
    by (simp add: gateway_no_voice_def gateway_ok_def)
  have f: "\<not> vr_success no_voice \<or> vr_audioBase64 no_voice = None \<or> vr_audioBase64 no_voice = Some []"
    by (simp add: no_voice_def)
  have g: "generateVoice gateway_no_voice ''Early blight is caused by...'' ''English'' = Resolves no_voice"
    by (simp add: gateway_no_voice_def gateway_ok_def)
  show ?thesis
    using voice_failure_completes [OF a b c d e f] a g
    by (simp add: blight_text_def no_voice_def)
qed

text \<open>
  C6. Invoked with no image, \<open>handleAnalyze\<close> only sets the validation message: it makes
  no remote call and leaves the analysis state as it was (\<open>idle\<close> when it was \<open>idle\<close>).
  A cycle that sets \<open>predicting\<close> had an image.
\<close>

theorem analyze_without_image:
  "(selectedImage s = None \<longrightarrow>
      handleAnalyze gw s = [SetError ''Please upload an image first'']
      \<and> calls_of (handleAnalyze gw s) = []
      \<and> perform (handleAnalyze gw s) s = s\<lparr>error := ''Please upload an image first''\<rparr>
      \<and> analysisState (perform (handleAnalyze gw s) s) = analysisState s)
   \<and> (Predicting \<in> set (stages_of (handleAnalyze gw s)) \<longrightarrow> selectedImage s \<noteq> None)"
  by (cases "selectedImage s") (simp_all add: handleAnalyze_def perform_Cons perform_Nil)

theorem analyze_without_image_witness:
  "selectedImage initial_ui = None
   \<and> analysisState initial_ui = Idle
   \<and> calls_of (handleAnalyze gateway_ok initial_ui) = []
   \<and> error (perform (handleAnalyze gateway_ok initial_ui) initial_ui) = ''Please upload an image first''
   \<and> analysisState (perform (handleAnalyze gateway_ok initial_ui) initial_ui) = Idle
   \<and> Predicting \<in> set (stages_of (handleAnalyze gateway_ok leaf_selected))
   \<and> selectedImage leaf_selected \<noteq> None"
proof -
  have a: "selectedImage initial_ui = None" "analysisState initial_ui = Idle"
    by (simp_all add: initial_ui_def)
  have b: "Predicting \<in> set (stages_of (handleAnalyze gateway_ok leaf_selected))"
    by (simp add: handleAnalyze_def leaf_selected_def initial_ui_def)
  from analyze_without_image [of initial_ui gateway_ok] a
  have c: "calls_of (handleAnalyze gateway_ok initial_ui) = []"
    and d: "perform (handleAnalyze gateway_ok initial_ui) initial_ui
              = initial_ui\<lparr>error := ''Please upload an image first''\<rparr>"
    and e0: "analysisState (perform (handleAnalyze gateway_ok initial_ui) initial_ui)
               = analysisState initial_ui"
    by blast+
  from e0 a have e: "analysisState (perform (handleAnalyze gateway_ok initial_ui) initial_ui) = Idle"
    by simp
  from d have f: "error (perform (handleAnalyze gateway_ok initial_ui) initial_ui)
      = ''Please upload an image first''"
    by simp
  from analyze_without_image [of leaf_selected gateway_ok] b
  have g: "selectedImage leaf_selected \<noteq> None"
    by blast
  from a b c e f g show ?thesis by blast
qed

section \<open>Validating a chosen file\<close>

text \<open>
  C5. \<open>handleFile\<close> accepts a file (starts the preview reader and forwards the file to
  the page) exactly when its type starts with \<open>image/\<close> and its size is at most
  10,485,760 bytes. Otherwise it raises an alert and nothing else: no state cell changes,
  no reader is started, the file is not forwarded, and the session is as before.
\<close>

theorem media_intake_validation:
  "(handleFile file = ReadAsDataURL file # handleImageSelect file
      \<longleftrightarrow> startsWith (file_type file) ''image/'' \<and> file_size file \<le> 10485760)
   \<and> (\<not> (startsWith (file_type file) ''image/'' \<and> file_size file \<le> 10485760) \<longrightarrow>
        (handleFile file = [Alert ''Please upload an image file'']
           \<or> handleFile file = [Alert ''File size must be less than 10MB''])
        \<and> perform (handleFile file) s = s
        \<and> reads_of (handleFile file) = []
        \<and> (preview s = None \<longrightarrow>
             fire (ChooseFile file) \<lparr>cells = s, inflight = ps\<rparr> = Some \<lparr>cells = s, inflight = ps\<rparr>))"
  by (auto simp: handleFile_def perform_Cons perform_Nil)

theorem media_intake_validation_witness:
  "\<not> (startsWith (file_type oversized_leaf) ''image/'' \<and> file_size oversized_leaf \<le> 10485760)
   \<and> handleFile oversized_leaf = [Alert ''File size must be less than 10MB'']
   \<and> perform (handleFile oversized_leaf) initial_ui = initial_ui
   \<and> analysisState (perform (handleFile oversized_leaf) initial_ui) = Idle
   \<and> startsWith (file_type second_leaf) ''image/'' \<and> file_size second_leaf \<le> 10485760
   \<and> handleFile second_leaf = ReadAsDataURL second_leaf # handleImageSelect second_leaf"
proof -
  have a: "\<not> (startsWith (file_type oversized_leaf) ''image/'' \<and> file_size oversized_leaf \<le> 10485760)"
    by (simp add: oversized_leaf_def)
  have b: "startsWith (file_type oversized_leaf) ''image/''"
    by (simp add: oversized_leaf_def startsWith_def)
  have c: "startsWith (file_type second_leaf) ''image/'' \<and> file_size second_leaf \<le> 10485760"
    by (simp add: second_leaf_def startsWith_def)
  from media_intake_validation [of oversized_leaf initial_ui "[]"] a
  have d: "handleFile oversized_leaf = [Alert ''Please upload an image file'']
           \<or> handleFile oversized_leaf = [Alert ''File size must be less than 10MB'']"
    and e: "perform (handleFile oversized_leaf) initial_ui = initial_ui"
    by blast+
  have f: "handleFile oversized_leaf \<noteq> [Alert ''Please upload an image file'']"
    using b by (simp add: handleFile_def)
  from d f have g: "handleFile oversized_leaf = [Alert ''File size must be less than 10MB'']"
    by blast
  from e have h: "analysisState (perform (handleFile oversized_leaf) initial_ui) = Idle"
    by (simp add: initial_ui_def)
  from media_intake_validation [of second_leaf initial_ui "[]"] c
  have i: "handleFile second_leaf = ReadAsDataURL second_leaf # handleImageSelect second_leaf"
    by blast
  from a g e h c i show ?thesis by blast
qed

section \<open>The local-speech control\<close>

text \<open>
  C9. The locale table of the local-speech control has exactly the two entries
  English to en-US and Hindi to hi-IN. The names of \<open>LANGUAGES\<close> without an entry are
  Telugu, Tamil, Bengali and Marathi, and for each of them the utterance's locale is en-US.
\<close>

theorem speech_fallback_locale:
  "length langMap = 2
   \<and> map_of langMap ''English'' = Some ''en-US''
   \<and> map_of langMap ''Hindi'' = Some ''hi-IN''
   \<and> dom (map_of langMap) = {''English'', ''Hindi''}
   \<and> filter (\<lambda>l. map_of langMap l = None) (map fst LANGUAGES)
       = [''Telugu'', ''Tamil'', ''Bengali'', ''Marathi'']
   \<and> utterance_lang ''Telugu'' = ''en-US''
   \<and> utterance_lang ''Tamil'' = ''en-US''
   \<and> utterance_lang ''Bengali'' = ''en-US''
   \<and> utterance_lang ''Marathi'' = ''en-US''
   \<and> utterance_lang ''English'' = ''en-US''
   \<and> utterance_lang ''Hindi'' = ''hi-IN''"
  by (auto simp: langMap_def LANGUAGES_def utterance_lang_def)

section \<open>Results of an earlier cycle\<close>

lemma after_first_cycle_cells:
  "after_first_cycle =
      leaf_selected\<lparr>analysisState := Complete, error := [], disease := ''Early Blight'',
        confidence := 0.87, explanation := ''Early blight is caused by...'',
        audioBase64 := ''UklGRg==''\<rparr>"
  by (simp add: after_first_cycle_def handleAnalyze_def explanation_stage_def voice_stage_def
      leaf_selected_def initial_ui_def gateway_ok_def early_blight_def blight_text_def spoken_def
      prediction_failed_def explText_of_def audio_of_def perform_Cons perform_Nil)

text \<open>
  C4. \<open>handleAnalyze\<close> clears only the error message before its first call. When a
  second cycle on the same image fails in classification, the disease label, the
  explanation and the audio payload of the first cycle are still in the state, next to
  the error of the second.
\<close>

theorem rerun_keeps_stale_results:
  "analysisState after_first_cycle = Complete
   \<and> selectedImage after_first_cycle = Some healthy_leaf
   \<and> disease after_first_cycle = ''Early Blight''
   \<and> analysisState (perform (handleAnalyze gateway_classifier_down after_first_cycle) after_first_cycle) = Error
   \<and> error (perform (handleAnalyze gateway_classifier_down after_first_cycle) after_first_cycle) = ''model unavailable''
   \<and> disease (perform (handleAnalyze gateway_classifier_down after_first_cycle) after_first_cycle) = ''Early Blight''
   \<and> explanation (perform (handleAnalyze gateway_classifier_down after_first_cycle) after_first_cycle)
       = ''Early blight is caused by...''
   \<and> audioBase64 (perform (handleAnalyze gateway_classifier_down after_first_cycle) after_first_cycle)
       = ''UklGRg==''"
proof -
  note first = after_first_cycle_cells
  have second: "handleAnalyze gateway_classifier_down after_first_cycle =
      [SetAnalysisState Predicting, SetError [], Invoke (PredictDisease healthy_leaf ''Tomato'')]
      @ catch_block (ErrorObject ''model unavailable'')"
    unfolding first
    by (simp add: handleAnalyze_def leaf_selected_def initial_ui_def gateway_classifier_down_def
        gateway_ok_def model_unavailable_def prediction_failed_def)
  show ?thesis
    unfolding second
    by (simp add: perform_append perform_Cons perform_Nil perform_catch)
       (simp add: first leaf_selected_def initial_ui_def)
qed

section \<open>Sessions\<close>

text \<open>
  The pieces of \<open>handleAnalyze\<close> used by the session machine, run one after the other
  against a gateway, perform exactly the effects of \<open>handleAnalyze\<close>.
\<close>

lemma handleAnalyze_by_segments:
  "handleAnalyze gw s = fst (analyze_begin s) @ complete_cycle gw 3 (snd (analyze_begin s))"
  by (simp add: handleAnalyze_def analyze_begin_def after_prediction_def after_explanation_def
      after_voice_def explanation_stage_def voice_stage_def numeral_3_eq_3
      split: option.split outcome.split)

lemma cycles_replace:
  assumes "i < length ps"
  shows "length (filter P (take i ps @ qs @ drop (Suc i) ps)) + length (filter P [ps ! i])
       = length (filter P ps) + length (filter P qs)"
proof -
  have "ps = take i ps @ [ps ! i] @ drop (Suc i) ps"
    using assms by (simp add: id_take_nth_drop)
  then have "filter P ps = filter P (take i ps) @ filter P [ps ! i] @ filter P (drop (Suc i) ps)"
    by (metis filter_append)
  then show ?thesis by simp
qed

lemma reads_are_not_cycles: "filter is_cycle (reads_of es) = []"
  by (induction es rule: reads_of.induct) simp_all

lemma no_cycle_at_rest:
  assumes "cycles_in_flight w = 0" and "i < length (inflight w)"
  shows "\<not> is_cycle (inflight w ! i)"
proof -
  from assms(1) have "filter is_cycle (inflight w) = []"
    by (simp add: cycles_in_flight_def)
  then have "\<forall>p \<in> set (inflight w). \<not> is_cycle p"
    by (simp add: filter_empty_conv)
  with assms(2) show ?thesis by simp
qed

text \<open>What \<open>handleFile\<close> does to the cells, by whether it accepts the file.\<close>

lemma handleFile_accepted:
  "accepted f \<Longrightarrow> handleFile f = ReadAsDataURL f # handleImageSelect f"
  by (auto simp: accepted_def handleFile_def split: if_splits)

lemma handleFile_rejected:
  "\<not> accepted f \<Longrightarrow> perform (handleFile f) s = s \<and> reads_of (handleFile f) = []"
  by (auto simp: accepted_def handleFile_def handleImageSelect_def perform_Cons perform_Nil)

lemma perform_handleImageSelect:
  "perform (ReadAsDataURL f # handleImageSelect f) s =
     s\<lparr>selectedImage := Some f, analysisState := Idle, disease := [], explanation := [],
       audioBase64 := [], error := []\<rparr>"
  by (simp add: handleImageSelect_def perform_Cons perform_Nil)

lemma perform_handleClear:
  "perform handleClear s =
     s\<lparr>preview := None, selectedImage := None, analysisState := Idle, disease := [],
       explanation := [], audioBase64 := [], error := []\<rparr>"
  by (simp add: handleClear_def handleClearImage_def perform_Cons perform_Nil)

text \<open>How a pending operation resumes.\<close>

lemma resume_cycle:
  assumes "resume p r = Some (es, Some p')" and "is_cycle p"
  shows "is_cycle p' \<and> isLoading (perform es s)"
proof (cases p)
  case (Awaiting c lang)
  show ?thesis
  proof (cases c)
    case (PredictDisease img crop)
    with Awaiting assms show ?thesis
      by (cases r)
        (auto simp: after_prediction_def perform_Cons perform_Nil isLoading_def
          split: outcome.splits if_splits)
  next
    case (GetExplanation crop d l)
    with Awaiting assms show ?thesis
      by (cases r)
        (auto simp: after_explanation_def perform_Cons perform_Nil isLoading_def
          split: outcome.splits)
  next
    case (GenerateVoice t l)
    with Awaiting assms show ?thesis
      by (cases r) (auto simp: after_voice_def split: outcome.splits)
  qed
next
  case (Reading f)
  with assms show ?thesis by simp
qed

lemma resume_reading:
  assumes "resume p r = Some (es, next)" and "\<not> is_cycle p"
  shows "next = None \<and> (\<exists>u. es = [SetPreview u])"
proof (cases p)
  case (Awaiting c lang)
  with assms show ?thesis by simp
next
  case (Reading f)
  with assms show ?thesis
    by (cases r) (auto simp: reader_onloadend_def)
qed


text \<open>The shape of a step, event by event.\<close>

lemma fire_ClickAnalyze:
  assumes "fire ClickAnalyze w = Some w'"
  obtains img where "selectedImage (cells w) = Some img" and "\<not> isLoading (cells w)"
    and "w' = \<lparr> cells = (cells w)\<lparr>analysisState := Predicting, error := []\<rparr>,
                 inflight = inflight w @ [Awaiting (PredictDisease img (selectedCrop (cells w)))
                                           (selectedLanguage (cells w))] \<rparr>"
proof -
  from assms have en: "\<not> analyze_disabled (cells w)"
    by (simp split: if_splits)
  then obtain img where img: "selectedImage (cells w) = Some img" and idle: "\<not> isLoading (cells w)"
    by (auto simp: analyze_disabled_def)
  from assms en img
  have "w' = \<lparr> cells = (cells w)\<lparr>analysisState := Predicting, error := []\<rparr>,
                 inflight = inflight w @ [Awaiting (PredictDisease img (selectedCrop (cells w)))
                                           (selectedLanguage (cells w))] \<rparr>"
    by (simp add: analyze_begin_def perform_Cons perform_Nil)
  with img idle that show ?thesis by blast
qed

lemma fire_Settles:
  assumes "fire (Settles i r) w = Some w'"
  obtains es "next" where "i < length (inflight w)"
    and "resume (inflight w ! i) r = Some (es, next)"
    and "w' = \<lparr> cells = perform es (cells w),
                 inflight = take i (inflight w) @ option_list next @ drop (Suc i) (inflight w) \<rparr>"
proof -
  from assms have i: "i < length (inflight w)"
    by (simp split: if_splits)
  with assms obtain es "next" where
    "resume (inflight w ! i) r = Some (es, next)"
    and "w' = \<lparr> cells = perform es (cells w),
                 inflight = take i (inflight w) @ option_list next @ drop (Suc i) (inflight w) \<rparr>"
    by (auto split: option.splits)
  with i that show ?thesis by blast
qed

lemma fire_ChooseFile:
  assumes "fire (ChooseFile f) w = Some w'"
  shows "w' = \<lparr> cells = perform (handleFile f) (cells w),
                inflight = inflight w @ reads_of (handleFile f) \<rparr>"
  using assms by (simp split: if_splits)

lemma fire_ClickRemove:
  assumes "fire ClickRemove w = Some w'"
  shows "w' = \<lparr> cells = perform handleClear (cells w), inflight = inflight w \<rparr>"
  using assms by (simp split: if_splits)

lemma fire_rejected_file:
  assumes "fire (ChooseFile f) w = Some w'" and "\<not> accepted f"
  shows "w' = w"
  using fire_ChooseFile [OF assms(1)] handleFile_rejected [OF assms(2)] by simp

subsection \<open>At most one cycle in flight\<close>

lemma fire_single_cycle:
  assumes inv: "single_cycle w"
    and step: "fire e w = Some w'"
    and rest: "selects_image e \<longrightarrow> cycles_in_flight w = 0"
  shows "single_cycle w'"
proof (cases e)
  case ClickAnalyze
  from step [unfolded ClickAnalyze] obtain img where
    idle: "\<not> isLoading (cells w)" and img: "selectedImage (cells w) = Some img"
    and w': "w' = \<lparr> cells = (cells w)\<lparr>analysisState := Predicting, error := []\<rparr>,
                 inflight = inflight w @ [Awaiting (PredictDisease img (selectedCrop (cells w)))
                                           (selectedLanguage (cells w))] \<rparr>"
    by (rule fire_ClickAnalyze)
  from idle img have "\<not> analyze_disabled (cells w)"
    by (simp add: analyze_disabled_def)
  with inv have none: "cycles_in_flight w = 0"
    by (auto simp: single_cycle_def)
  from none show ?thesis
    unfolding w'
    by (simp add: single_cycle_def cycles_in_flight_def analyze_disabled_def isLoading_def)
next
  case (ChooseFile f)
  show ?thesis
  proof (cases "accepted f")
    case True
    with rest ChooseFile have none: "cycles_in_flight w = 0" by simp
    from fire_ChooseFile [OF step [unfolded ChooseFile]]
    have "inflight w' = inflight w @ reads_of (handleFile f)" by simp
    with none have "cycles_in_flight w' = 0"
      by (simp add: cycles_in_flight_def reads_are_not_cycles)
    then show ?thesis by (simp add: single_cycle_def)
  next
    case False
    from fire_rejected_file [OF step [unfolded ChooseFile] False] inv show ?thesis by simp
  qed
next
  case ClickRemove
  from fire_ClickRemove [OF step [unfolded ClickRemove]]
  have w': "w' = \<lparr> cells = perform handleClear (cells w), inflight = inflight w \<rparr>" .
  from inv show ?thesis
    unfolding w'
    by (simp add: single_cycle_def cycles_in_flight_def perform_handleClear analyze_disabled_def)
next
  case (PickCrop c)
  with step inv show ?thesis
    by (auto simp: single_cycle_def cycles_in_flight_def analyze_disabled_def isLoading_def
        perform_Cons perform_Nil)
next
  case (PickLanguage l)
  with step inv show ?thesis
    by (auto simp: single_cycle_def cycles_in_flight_def analyze_disabled_def isLoading_def
        perform_Cons perform_Nil)
next
  case (Settles i r)
  from step [unfolded Settles] obtain es "next" where
    i: "i < length (inflight w)"
    and res: "resume (inflight w ! i) r = Some (es, next)"
    and w': "w' = \<lparr> cells = perform es (cells w),
                    inflight = take i (inflight w) @ option_list next @ drop (Suc i) (inflight w) \<rparr>"
    by (rule fire_Settles)
  have count: "cycles_in_flight w' + length (filter is_cycle [inflight w ! i])
      = cycles_in_flight w + length (filter is_cycle (option_list next))"
    unfolding w' cycles_in_flight_def using cycles_replace [OF i] by simp
  show ?thesis
  proof (cases "is_cycle (inflight w ! i)")
    case True
    show ?thesis
    proof (cases "next")
      case None
      with count True inv have "cycles_in_flight w' = 0"
        by (simp add: single_cycle_def)
      then show ?thesis by (simp add: single_cycle_def)
    next
      case (Some p')
      from resume_cycle [OF res [unfolded Some] True]
      have p': "is_cycle p'" and load: "isLoading (perform es (cells w))"
        by blast+
      from count True Some p' have "cycles_in_flight w' = cycles_in_flight w" by simp
      with inv load show ?thesis
        by (simp add: single_cycle_def analyze_disabled_def w')
    qed
  next
    case False
    from resume_reading [OF res False] obtain u where
      nx: "next = None" and es: "es = [SetPreview u]"
      by blast
    from count False nx have "cycles_in_flight w' = cycles_in_flight w" by simp
    with inv show ?thesis
      by (simp add: single_cycle_def analyze_disabled_def isLoading_def w' es
          perform_Cons perform_Nil)
  qed
qed

lemma run_single_cycle:
  "single_cycle w \<Longrightarrow> run evs w = Some w' \<Longrightarrow> selections_at_rest evs w \<Longrightarrow> single_cycle w'"
proof (induction evs arbitrary: w)
  case Nil
  then show ?case by simp
next
  case (Cons e evs)
  from Cons.prems(2) obtain v where v: "fire e w = Some v" and rest: "run evs v = Some w'"
    by (auto split: option.splits)
  from Cons.prems(3) v have q: "selects_image e \<longrightarrow> cycles_in_flight w = 0"
    and q': "selections_at_rest evs v"
    by simp_all
  from fire_single_cycle [OF Cons.prems(1) v q] have "single_cycle v" .
  from Cons.IH [OF this rest q'] show ?case .
qed

lemma single_cycle_initial: "single_cycle initial_session"
  by (simp add: single_cycle_def initial_session_def cycles_in_flight_def)

text \<open>The runs of the examples, evaluated.\<close>

lemma run_one_cycle: "run one_cycle_run initial_session = Some after_one_cycle_run"
  by (simp add: one_cycle_run_def initial_session_def after_one_cycle_run_def after_first_cycle_def
      initial_ui_def healthy_leaf_def handleFile_def startsWith_def handleImageSelect_def
      reader_onloadend_def perform_Cons perform_Nil analyze_disabled_def isLoading_def
      analyze_begin_def after_prediction_def after_explanation_def after_voice_def
      prediction_failed_def early_blight_def blight_text_def spoken_def explText_of_def
      audio_of_def handleAnalyze_def leaf_selected_def gateway_ok_def explanation_stage_def
      voice_stage_def)

lemma rest_one_cycle: "selections_at_rest one_cycle_run initial_session"
  by (simp add: one_cycle_run_def initial_session_def cycles_in_flight_def accepted_def
      initial_ui_def healthy_leaf_def handleFile_def startsWith_def handleImageSelect_def
      reader_onloadend_def perform_Cons perform_Nil analyze_disabled_def isLoading_def
      analyze_begin_def after_prediction_def after_explanation_def after_voice_def
      prediction_failed_def early_blight_def blight_text_def spoken_def explText_of_def
      audio_of_def)

lemma run_remove_mid_flight: "run remove_mid_flight_run initial_session = Some removed_mid_flight"
  by (simp add: remove_mid_flight_run_def initial_session_def removed_mid_flight_def
      initial_ui_def healthy_leaf_def handleFile_def startsWith_def handleImageSelect_def
      handleClear_def handleClearImage_def
      reader_onloadend_def perform_Cons perform_Nil analyze_disabled_def isLoading_def
      analyze_begin_def after_prediction_def prediction_failed_def early_blight_def)

lemma rest_remove_mid_flight: "selections_at_rest remove_mid_flight_run initial_session"
  by (simp add: remove_mid_flight_run_def initial_session_def cycles_in_flight_def accepted_def
      initial_ui_def healthy_leaf_def handleFile_def startsWith_def handleImageSelect_def
      handleClear_def handleClearImage_def
      reader_onloadend_def perform_Cons perform_Nil analyze_disabled_def isLoading_def
      analyze_begin_def after_prediction_def prediction_failed_def early_blight_def)

lemma run_before_second_click: "run before_second_click initial_session = Some reselected_mid_flight"
  by (simp add: before_second_click_def initial_session_def reselected_mid_flight_def
      initial_ui_def healthy_leaf_def second_leaf_def handleFile_def startsWith_def
      handleImageSelect_def handleClear_def handleClearImage_def
      reader_onloadend_def perform_Cons perform_Nil analyze_disabled_def isLoading_def
      analyze_begin_def)

lemma run_append: "run (xs @ ys) w = (case run xs w of None \<Rightarrow> None | Some v \<Rightarrow> run ys v)"
  by (induction xs arbitrary: w) (simp_all split: option.split)

text \<open>
  A new image selected while a cycle is in flight always enables the button with that
  cycle still in flight.
\<close>

lemma selection_mid_flight_enables_click:
  assumes "0 < cycles_in_flight w" and "accepted f" and "fire (ChooseFile f) w = Some w'"
  shows "fire ClickAnalyze w' \<noteq> None \<and> 0 < cycles_in_flight w'"
  using fire_ChooseFile [OF assms(3)] handleFile_accepted [OF assms(2)] assms(1)
  by (simp add: perform_handleImageSelect analyze_disabled_def isLoading_def cycles_in_flight_def)

text \<open>
  C7, as stated, fails: removing the image resets the analysis state to \<open>idle\<close> while
  the classification call of the running cycle is still pending. After a new image is
  chosen the button is enabled with one cycle in flight, and the click starts a second.
\<close>

theorem overlapping_cycles_counterexample:
  "run before_second_click initial_session = Some reselected_mid_flight
   \<and> cycles_in_flight reselected_mid_flight = 1
   \<and> \<not> analyze_disabled (cells reselected_mid_flight)
   \<and> map_option cycles_in_flight (fire ClickAnalyze reselected_mid_flight) = Some 2"
proof -
  have b: "cycles_in_flight reselected_mid_flight = 1"
    by (simp add: reselected_mid_flight_def cycles_in_flight_def)
  have c: "\<not> analyze_disabled (cells reselected_mid_flight)"
    by (simp add: reselected_mid_flight_def analyze_disabled_def isLoading_def initial_ui_def)
  have d: "map_option cycles_in_flight (fire ClickAnalyze reselected_mid_flight) = Some 2"
    by (simp add: reselected_mid_flight_def analyze_disabled_def isLoading_def initial_ui_def
        analyze_begin_def cycles_in_flight_def)
  from run_before_second_click b c d show ?thesis by blast
qed

text \<open>
  C7, amended. The Analyze button is disabled exactly while the analysis state is
  \<open>predicting\<close>, \<open>explaining\<close> or \<open>generating-voice\<close>, or while no image is selected,
  and a click on the disabled button starts nothing. In every run of a session in which
  a new image is selected only while no cycle is in flight (the image may be removed at
  any time), at most one cycle is in flight at any time, and whenever a click can start a
  cycle none is in flight.
\<close>

theorem analyze_button_gate:
  "(analyze_disabled s \<longleftrightarrow>
      selectedImage s = None \<or> analysisState s = Predicting \<or> analysisState s = Explaining
      \<or> analysisState s = GeneratingVoice)
   \<and> (fire ClickAnalyze \<lparr>cells = s, inflight = ps\<rparr> = None \<longleftrightarrow> analyze_disabled s)
   \<and> (run evs initial_session = Some w \<and> selections_at_rest evs initial_session \<longrightarrow>
        cycles_in_flight w \<le> 1 \<and> (fire ClickAnalyze w \<noteq> None \<longrightarrow> cycles_in_flight w = 0))"
proof -
  have a: "analyze_disabled s \<longleftrightarrow>
      selectedImage s = None \<or> analysisState s = Predicting \<or> analysisState s = Explaining
      \<or> analysisState s = GeneratingVoice"
    by (auto simp: analyze_disabled_def isLoading_def)
  have b: "fire ClickAnalyze \<lparr>cells = s, inflight = ps\<rparr> = None \<longleftrightarrow> analyze_disabled s"
    by simp
  have c: "cycles_in_flight w \<le> 1 \<and> (fire ClickAnalyze w \<noteq> None \<longrightarrow> cycles_in_flight w = 0)"
    if r: "run evs initial_session = Some w" and q: "selections_at_rest evs initial_session"
  proof -
    from run_single_cycle [OF single_cycle_initial r q] have inv: "single_cycle w" .
    then have le: "cycles_in_flight w \<le> 1" by (simp add: single_cycle_def)
    have "cycles_in_flight w = 0" if "fire ClickAnalyze w \<noteq> None"
    proof -
      from that have "\<not> analyze_disabled (cells w)"
        by (auto split: if_splits)
      with inv show ?thesis by (auto simp: single_cycle_def)
    qed
    with le show ?thesis by blast
  qed
  from a b c show ?thesis by blast
qed

theorem analyze_button_gate_witness:
  "run one_cycle_run initial_session = Some after_one_cycle_run
   \<and> selections_at_rest one_cycle_run initial_session
   \<and> fire ClickAnalyze after_one_cycle_run \<noteq> None
   \<and> cycles_in_flight after_one_cycle_run = 0
   \<and> run remove_mid_flight_run initial_session = Some removed_mid_flight
   \<and> selections_at_rest remove_mid_flight_run initial_session
   \<and> cycles_in_flight removed_mid_flight = 1
   \<and> fire ClickAnalyze removed_mid_flight = None"
proof -
  have en: "fire ClickAnalyze after_one_cycle_run \<noteq> None"
    by (simp add: after_one_cycle_run_def after_first_cycle_cells analyze_disabled_def
        isLoading_def leaf_selected_def initial_ui_def)
  from analyze_button_gate [of "cells after_one_cycle_run" "[]" one_cycle_run after_one_cycle_run]
    run_one_cycle rest_one_cycle en
  have z: "cycles_in_flight after_one_cycle_run = 0" by blast
  have one: "cycles_in_flight removed_mid_flight = 1"
    by (simp add: removed_mid_flight_def cycles_in_flight_def)
  from analyze_button_gate
    [of "cells removed_mid_flight" "[]" remove_mid_flight_run removed_mid_flight]
    run_remove_mid_flight rest_remove_mid_flight
  have "fire ClickAnalyze removed_mid_flight \<noteq> None \<longrightarrow> cycles_in_flight removed_mid_flight = 0"
    by blast
  with one have dis: "fire ClickAnalyze removed_mid_flight = None" by auto
  from run_one_cycle rest_one_cycle en z run_remove_mid_flight rest_remove_mid_flight one dis
  show ?thesis by blast
qed

subsection \<open>Idle and the error message\<close>







subsection \<open>Results after a new selection\<close>

lemma nothing_shown_placeholder: "nothing_shown w \<Longrightarrow> results_column (cells w) = [Placeholder]"
  by (simp add: nothing_shown_def results_column_def)

lemma fire_nothing_shown:
  assumes inv: "nothing_shown w" and step: "fire e w = Some w'" and other: "e \<noteq> ClickAnalyze"
  shows "nothing_shown w'"
proof (cases e)
  case ClickAnalyze
  with other show ?thesis by simp
next
  case (ChooseFile f)
  show ?thesis
  proof (cases "accepted f")
    case True
    from fire_ChooseFile [OF step [unfolded ChooseFile]] handleFile_accepted [OF True] inv
    show ?thesis
      by (simp add: nothing_shown_def cycles_in_flight_def perform_handleImageSelect
          reads_are_not_cycles)
  next
    case False
    from fire_rejected_file [OF step [unfolded ChooseFile] False] inv show ?thesis by simp
  qed
next
  case ClickRemove
  from fire_ClickRemove [OF step [unfolded ClickRemove]] inv show ?thesis
    by (simp add: nothing_shown_def cycles_in_flight_def perform_handleClear)
next
  case (PickCrop c)
  with step inv show ?thesis
    by (auto simp: nothing_shown_def cycles_in_flight_def perform_Cons perform_Nil)
next
  case (PickLanguage l)
  with step inv show ?thesis
    by (auto simp: nothing_shown_def cycles_in_flight_def perform_Cons perform_Nil)
next
  case (Settles i r)
  from step [unfolded Settles] obtain es "next" where
    i: "i < length (inflight w)"
    and res: "resume (inflight w ! i) r = Some (es, next)"
    and w': "w' = \<lparr> cells = perform es (cells w),
                    inflight = take i (inflight w) @ option_list next @ drop (Suc i) (inflight w) \<rparr>"
    by (rule fire_Settles)
  from inv have none: "cycles_in_flight w = 0"
    by (simp add: nothing_shown_def)
  from no_cycle_at_rest [OF none i] have reading: "\<not> is_cycle (inflight w ! i)" .
  from resume_reading [OF res reading] obtain u where
    nx: "next = None" and es: "es = [SetPreview u]"
    by blast
  have "cycles_in_flight w' + length (filter is_cycle [inflight w ! i])
      = cycles_in_flight w + length (filter is_cycle (option_list next))"
    unfolding w' cycles_in_flight_def using cycles_replace [OF i] by simp
  with reading nx none have "cycles_in_flight w' = 0" by simp
  with inv show ?thesis
    by (simp add: nothing_shown_def w' es perform_Cons perform_Nil)
qed

lemma run_nothing_shown:
  "nothing_shown w \<Longrightarrow> run evs w = Some w' \<Longrightarrow> ClickAnalyze \<notin> set evs \<Longrightarrow> nothing_shown w'"
proof (induction evs arbitrary: w)
  case Nil
  then show ?case by simp
next
  case (Cons e evs)
  from Cons.prems(2) obtain v where v: "fire e w = Some v" and rest: "run evs v = Some w'"
    by (auto split: option.splits)
  from Cons.prems(3) have ne: "e \<noteq> ClickAnalyze" and later: "ClickAnalyze \<notin> set evs"
    by auto
  from fire_nothing_shown [OF Cons.prems(1) v ne] have "nothing_shown v" .
  from Cons.IH [OF this rest later] show ?case .
qed

lemma selection_nothing_shown:
  assumes "cycles_in_flight w = 0" and "accepted f" and "fire (ChooseFile f) w = Some w'"
  shows "nothing_shown w'"
  using fire_ChooseFile [OF assms(3)] handleFile_accepted [OF assms(2)] assms(1)
  by (simp add: nothing_shown_def cycles_in_flight_def perform_handleImageSelect
      reads_are_not_cycles)

lemma removal_nothing_shown:
  assumes "cycles_in_flight w = 0" and "fire ClickRemove w = Some w'"
  shows "nothing_shown w'"
  using fire_ClickRemove [OF assms(2)] assms(1)
  by (simp add: nothing_shown_def cycles_in_flight_def perform_handleClear)

text \<open>
  Sessions that show the same go on showing the same under the same events, and a
  selection at rest makes the session show the same as the one without history.
\<close>

lemma same_cells_results: "same_cells s t \<Longrightarrow> results_column s = results_column t"
  by (auto simp: same_cells_def results_column_def)

lemma same_cells_disabled: "same_cells s t \<Longrightarrow> analyze_disabled s = analyze_disabled t"
  by (simp add: same_cells_def analyze_disabled_def isLoading_def)

lemma same_cells_resume:
  assumes "same_cells s t" and "resume p r = Some (es, next)"
  shows "same_cells (perform es s) (perform es t)"
proof (cases p)
  case (Awaiting c lang)
  show ?thesis
  proof (cases c)
    case (PredictDisease img crop)
    with Awaiting assms show ?thesis
      by (cases r)
        (auto simp: same_cells_def after_prediction_def catch_block_def perform_Cons perform_Nil
          split: outcome.splits if_splits)
  next
    case (GetExplanation crop d l)
    with Awaiting assms show ?thesis
      by (cases r)
        (auto simp: same_cells_def after_explanation_def catch_block_def perform_Cons perform_Nil
          split: outcome.splits)
  next
    case (GenerateVoice u l)
    with Awaiting assms show ?thesis
      by (cases r)
        (auto simp: same_cells_def after_voice_def catch_block_def perform_Cons perform_Nil
          split: outcome.splits)
  qed
next
  case (Reading f)
  with assms show ?thesis
    by (cases r) (auto simp: same_cells_def reader_onloadend_def perform_Cons perform_Nil)
qed

lemma fire_same_view:
  assumes "same_view w v"
  shows "rel_option same_view (fire e w) (fire e v)"
proof -
  from assms have inf: "inflight v = inflight w" and sc: "same_cells (cells w) (cells v)"
    by (simp_all add: same_view_def)
  show ?thesis
  proof (cases e)
    case ClickAnalyze
    from sc same_cells_disabled [OF sc] show ?thesis
      unfolding ClickAnalyze
      by (auto simp: same_view_def inf same_cells_def analyze_begin_def perform_Cons perform_Nil
          analyze_disabled_def split: option.splits)
  next
    case (ChooseFile f)
    from sc show ?thesis
      unfolding ChooseFile
      by (auto simp: same_view_def inf same_cells_def handleFile_def handleImageSelect_def
          perform_Cons perform_Nil)
  next
    case ClickRemove
    from sc show ?thesis
      unfolding ClickRemove
      by (auto simp: same_view_def inf same_cells_def perform_handleClear)
  next
    case (PickCrop c)
    from sc show ?thesis
      unfolding PickCrop
      by (auto simp: same_view_def inf same_cells_def perform_Cons perform_Nil)
  next
    case (PickLanguage l)
    from sc show ?thesis
      unfolding PickLanguage
      by (auto simp: same_view_def inf same_cells_def perform_Cons perform_Nil)
  next
    case (Settles i r)
    show ?thesis
    proof (cases "i < length (inflight w)")
      case False
      then show ?thesis unfolding Settles by (simp add: inf)
    next
      case True
      show ?thesis
      proof (cases "resume (inflight w ! i) r")
        case None
        with True show ?thesis unfolding Settles by (simp add: inf)
      next
        case (Some a)
        obtain es "next" where a: "a = (es, next)" by (cases a)
        from same_cells_resume [OF sc Some [unfolded a]]
        have "same_cells (perform es (cells w)) (perform es (cells v))" .
        with True Some a show ?thesis
          unfolding Settles by (simp add: inf same_view_def)
      qed
    qed
  qed
qed

lemma run_same_view:
  "same_view w v \<Longrightarrow> rel_option same_view (run evs w) (run evs v)"
proof (induction evs arbitrary: w v)
  case Nil
  then show ?case by simp
next
  case (Cons e evs)
  from fire_same_view [OF Cons.prems, of e] show ?case
  proof (cases rule: option.rel_cases)
    case None
    then show ?thesis by simp
  next
    case (Some w' v')
    with Cons.IH [OF Some(3)] show ?thesis by simp
  qed
qed

lemma same_view_rendered:
  assumes "rel_option same_view a b"
  shows "map_option (\<lambda>u. results_column (cells u)) a = map_option (\<lambda>u. results_column (cells u)) b"
  using assms
  by (cases rule: option.rel_cases) (simp_all add: same_view_def same_cells_results)

lemma without_history_at_rest:
  assumes "cycles_in_flight w = 0"
  shows "inflight (without_history w) = inflight w"
proof -
  from assms have "filter is_cycle (inflight w) = []"
    by (simp add: cycles_in_flight_def)
  then have "\<forall>p \<in> set (inflight w). \<not> is_cycle p"
    by (simp add: filter_empty_conv)
  then show ?thesis by (simp add: without_history_def)
qed

lemma selection_forgets_history:
  assumes rest: "cycles_in_flight w = 0" and acc: "accepted f"
  shows "rel_option same_view (fire (ChooseFile f) w) (fire (ChooseFile f) (without_history w))"
proof -
  have pv: "preview (cells (without_history w)) = preview (cells w)"
    by (simp add: without_history_def)
  show ?thesis
  proof (cases "preview (cells w) = None")
    case False
    with pv show ?thesis by simp
  next
    case True
    with pv without_history_at_rest [OF rest] handleFile_accepted [OF acc] show ?thesis
      by (simp add: same_view_def same_cells_def perform_handleImageSelect)
        (simp add: without_history_def)
  qed
qed

lemma selection_rendering:
  assumes "cycles_in_flight w = 0" and "accepted f"
  shows "map_option (\<lambda>u. results_column (cells u)) (run (ChooseFile f # evs) w)
       = map_option (\<lambda>u. results_column (cells u)) (run (ChooseFile f # evs) (without_history w))"
proof -
  from selection_forgets_history [OF assms]
  have "rel_option same_view (run (ChooseFile f # evs) w) (run (ChooseFile f # evs) (without_history w))"
  proof (cases rule: option.rel_cases)
    case None
    then show ?thesis by simp
  next
    case (Some w' v')
    with run_same_view [OF Some(3), of evs] show ?thesis by simp
  qed
  then show ?thesis by (rule same_view_rendered)
qed

lemma run_analysis_before_preview:
  "run analysis_before_preview_run initial_session = Some shown_before_preview"
  by (simp add: analysis_before_preview_run_def initial_session_def shown_before_preview_def
      after_first_cycle_cells leaf_selected_def
      initial_ui_def healthy_leaf_def handleFile_def startsWith_def handleImageSelect_def
      perform_Cons perform_Nil analyze_disabled_def isLoading_def
      analyze_begin_def after_prediction_def after_explanation_def after_voice_def
      prediction_failed_def early_blight_def blight_text_def spoken_def explText_of_def
      audio_of_def)

lemma second_analysis_rendered:
  "map_option (\<lambda>u. results_column (cells u))
       (run (ChooseFile second_leaf # second_analysis_fails) shown_before_preview)
     = Some [ErrorPanel ''model unavailable'']"
  by (simp add: second_analysis_fails_def shown_before_preview_def
      after_first_cycle_cells leaf_selected_def
      initial_ui_def second_leaf_def handleFile_def startsWith_def handleImageSelect_def
      perform_Cons perform_Nil analyze_disabled_def isLoading_def
      analyze_begin_def after_prediction_def catch_block_def
      prediction_failed_def model_unavailable_def results_column_def)

lemma run_late_prediction: "run late_prediction_run initial_session = Some stale_card_session"
  by (simp add: late_prediction_run_def run_append run_before_second_click
      reselected_mid_flight_def stale_card_session_def initial_ui_def
      perform_Cons perform_Nil after_prediction_def prediction_failed_def early_blight_def)

text \<open>
  C10, as stated, fails. When the second image is selected while the classification call
  for the first is pending, the call's result is written afterwards: the disease card of
  the earlier cycle is rendered with the second image selected.
\<close>

theorem stale_card_after_selection_counterexample:
  "run late_prediction_run initial_session = Some stale_card_session
   \<and> selectedImage (cells stale_card_session) = Some second_leaf
   \<and> DiseaseCard ''Early Blight'' 0.87 ''Tomato'' ''English''
       \<in> set (results_column (cells stale_card_session))
   \<and> Placeholder \<notin> set (results_column (cells stale_card_session))"
proof -
  have "selectedImage (cells stale_card_session) = Some second_leaf
   \<and> DiseaseCard ''Early Blight'' 0.87 ''Tomato'' ''English''
       \<in> set (results_column (cells stale_card_session))
   \<and> Placeholder \<notin> set (results_column (cells stale_card_session))"
    by (simp add: stale_card_session_def initial_ui_def results_column_def)
  with run_late_prediction show ?thesis by blast
qed

text \<open>
  C10, amended. Selecting a new image, like clearing the image, sets the analysis state
  to \<open>idle\<close> and empties the disease label, the explanation, the audio payload and the
  error message; the results column then shows the placeholder only. When no cycle is in
  flight at the selection (or at the removal), it goes on showing the placeholder only
  until a new analysis is started, and whatever is rendered after the selection is what
  would be rendered had no earlier analysis been run: no result of a prior cycle is
  visible.
\<close>

theorem image_select_resets_results:
  "perform (handleImageSelect f) s =
     s\<lparr>selectedImage := Some f, analysisState := Idle, disease := [], explanation := [],
       audioBase64 := [], error := []\<rparr>
   \<and> perform handleClearImage s =
     s\<lparr>selectedImage := None, analysisState := Idle, disease := [], explanation := [],
       audioBase64 := [], error := []\<rparr>
   \<and> results_column (perform (handleImageSelect f) s) = [Placeholder]
   \<and> results_column (perform handleClearImage s) = [Placeholder]
   \<and> (cycles_in_flight w = 0 \<and> accepted f \<and> fire (ChooseFile f) w = Some w1
        \<and> run evs w1 = Some w2 \<and> ClickAnalyze \<notin> set evs \<longrightarrow>
        results_column (cells w2) = [Placeholder])
   \<and> (cycles_in_flight v = 0 \<and> fire ClickRemove v = Some v1
        \<and> run evs' v1 = Some v2 \<and> ClickAnalyze \<notin> set evs' \<longrightarrow>
        results_column (cells v2) = [Placeholder])
   \<and> (cycles_in_flight u = 0 \<and> accepted f \<longrightarrow>
        map_option (\<lambda>x. results_column (cells x)) (run (ChooseFile f # later) u)
        = map_option (\<lambda>x. results_column (cells x))
            (run (ChooseFile f # later) (without_history u)))"
proof -
  have a: "perform (handleImageSelect f) s =
     s\<lparr>selectedImage := Some f, analysisState := Idle, disease := [], explanation := [],
       audioBase64 := [], error := []\<rparr>"
    and b: "perform handleClearImage s =
     s\<lparr>selectedImage := None, analysisState := Idle, disease := [], explanation := [],
       audioBase64 := [], error := []\<rparr>"
    by (simp_all add: handleImageSelect_def handleClearImage_def perform_Cons perform_Nil)
  have c: "results_column (perform (handleImageSelect f) s) = [Placeholder]"
    and d: "results_column (perform handleClearImage s) = [Placeholder]"
    unfolding a b by (simp_all add: results_column_def)
  have e: "results_column (cells w2) = [Placeholder]"
    if "cycles_in_flight w = 0" "accepted f" "fire (ChooseFile f) w = Some w1"
      "run evs w1 = Some w2" "ClickAnalyze \<notin> set evs"
    using that
    by (blast intro: nothing_shown_placeholder run_nothing_shown selection_nothing_shown)
  have f: "results_column (cells v2) = [Placeholder]"
    if "cycles_in_flight v = 0" "fire ClickRemove v = Some v1"
      "run evs' v1 = Some v2" "ClickAnalyze \<notin> set evs'"
    using that
    by (blast intro: nothing_shown_placeholder run_nothing_shown removal_nothing_shown)
  have g: "map_option (\<lambda>x. results_column (cells x)) (run (ChooseFile f # later) u)
        = map_option (\<lambda>x. results_column (cells x))
            (run (ChooseFile f # later) (without_history u))"
    if "cycles_in_flight u = 0" "accepted f"
    using that by (rule selection_rendering)
  from a b c d e f g show ?thesis by blast
qed

theorem image_select_resets_results_witness:
  "run one_cycle_run initial_session = Some after_one_cycle_run
   \<and> DiseaseCard ''Early Blight'' 0.87 ''Tomato'' ''English''
       \<in> set (results_column (cells after_one_cycle_run))
   \<and> cycles_in_flight after_one_cycle_run = 0
   \<and> fire ClickRemove after_one_cycle_run = Some cleared_after_cycle
   \<and> run [ChooseFile second_leaf] cleared_after_cycle = Some second_chosen
   \<and> results_column (cells second_chosen) = [Placeholder]
   \<and> cycles_in_flight cleared_after_cycle = 0
   \<and> accepted second_leaf
   \<and> fire (ChooseFile second_leaf) cleared_after_cycle = Some second_chosen
   \<and> run [Settles 0 (Loaded (Some ''data:image/png;base64,BBBB''))] second_chosen
       = Some second_previewed
   \<and> results_column (cells second_previewed) = [Placeholder]
   \<and> run analysis_before_preview_run initial_session = Some shown_before_preview
   \<and> cycles_in_flight shown_before_preview = 0
   \<and> map_option (\<lambda>x. results_column (cells x))
        (run (ChooseFile second_leaf # second_analysis_fails) shown_before_preview)
       = Some [ErrorPanel ''model unavailable'']
   \<and> map_option (\<lambda>x. results_column (cells x))
        (run (ChooseFile second_leaf # second_analysis_fails) (without_history shown_before_preview))
       = Some [ErrorPanel ''model unavailable'']"
proof -
  have shown: "DiseaseCard ''Early Blight'' 0.87 ''Tomato'' ''English''
       \<in> set (results_column (cells after_one_cycle_run))"
    by (simp add: after_one_cycle_run_def after_first_cycle_cells leaf_selected_def initial_ui_def
        results_column_def)
  have r0: "cycles_in_flight after_one_cycle_run = 0"
    by (simp add: after_one_cycle_run_def cycles_in_flight_def)
  have r1: "fire ClickRemove after_one_cycle_run = Some cleared_after_cycle"
    by (simp add: after_one_cycle_run_def after_first_cycle_cells leaf_selected_def initial_ui_def
        cleared_after_cycle_def perform_handleClear)
  have acc: "accepted second_leaf"
    by (simp add: accepted_def handleFile_def startsWith_def second_leaf_def handleImageSelect_def)
  have c1: "fire (ChooseFile second_leaf) cleared_after_cycle = Some second_chosen"
    by (simp add: cleared_after_cycle_def second_chosen_def initial_ui_def
        handleFile_accepted [OF acc] handleImageSelect_def perform_Cons perform_Nil)
  then have r2: "run [ChooseFile second_leaf] cleared_after_cycle = Some second_chosen"
    by simp
  have c0: "cycles_in_flight cleared_after_cycle = 0"
    by (simp add: cleared_after_cycle_def cycles_in_flight_def)
  have c2: "run [Settles 0 (Loaded (Some ''data:image/png;base64,BBBB''))] second_chosen
       = Some second_previewed"
    by (simp add: second_chosen_def second_previewed_def initial_ui_def reader_onloadend_def
        perform_Cons perform_Nil)
  have s0: "cycles_in_flight shown_before_preview = 0"
    by (simp add: shown_before_preview_def cycles_in_flight_def)
  note th = image_select_resets_results
    [where f = second_leaf and s = initial_ui and w = cleared_after_cycle
       and ?w1.0 = second_chosen
       and evs = "[Settles 0 (Loaded (Some ''data:image/png;base64,BBBB''))]"
       and ?w2.0 = second_previewed and v = after_one_cycle_run
       and ?v1.0 = cleared_after_cycle and evs' = "[ChooseFile second_leaf]"
       and ?v2.0 = second_chosen and u = shown_before_preview
       and later = second_analysis_fails]
  from th r0 r1 r2 have p1: "results_column (cells second_chosen) = [Placeholder]"
    by simp
  from th c0 acc c1 c2 have p2: "results_column (cells second_previewed) = [Placeholder]"
    by simp
  from th s0 acc have "map_option (\<lambda>x. results_column (cells x))
        (run (ChooseFile second_leaf # second_analysis_fails) shown_before_preview)
      = map_option (\<lambda>x. results_column (cells x))
        (run (ChooseFile second_leaf # second_analysis_fails) (without_history shown_before_preview))"
    by blast
  from this [symmetric] second_analysis_rendered
  have p3: "map_option (\<lambda>x. results_column (cells x))
        (run (ChooseFile second_leaf # second_analysis_fails) (without_history shown_before_preview))
       = Some [ErrorPanel ''model unavailable'']"
    by (rule trans)
  from run_one_cycle shown r0 r1 r2 p1 c0 acc c1 c2 p2
    run_analysis_before_preview s0 second_analysis_rendered p3
  show ?thesis by blast
qed

end
